theory Spec2Isabelle
  imports Complex_Main "HOL-Library.Log_Nat"
begin

section \<open>Python values\<close>

text \<open>
  The exceptions that matter to the analysis. \<open>AttributeError\<close> is what Python raises for
  \<^verbatim>\<open>cell.strip()\<close> on a list, \<open>ZeroDivisionError\<close> for \<^verbatim>\<open>/\<close> with a zero divisor,
  \<open>IndexError\<close> is what \<^verbatim>\<open>np.percentile\<close> raises on an empty sample, and
  \<open>UnboundLocalError\<close> comes from reading a local variable that no branch assigned.
  \<open>DocumentParseError\<close> stands for whatever the parsing library raises on a file it cannot
  read. \<open>InputError\<close> is the error kind the specification names for an
  unsupported file type; no statement of \<^verbatim>\<open>app.py\<close> raises it.
\<close>

datatype error =
    AttributeError | ZeroDivisionError | IndexError | UnboundLocalError
  | DocumentParseError | InputError

definition bind_err :: "error + 'a \<Rightarrow> ('a \<Rightarrow> error + 'b) \<Rightarrow> error + 'b" where
  "bind_err m f = (case m of Inl e \<Rightarrow> Inl e | Inr x \<Rightarrow> f x)"

text \<open>
  A table cell: \<^verbatim>\<open>None\<close> (pdfplumber's empty cell), a \<^verbatim>\<open>str\<close>, or a \<^verbatim>\<open>list\<close> of
  further values. A \<^verbatim>\<open>str\<close> is a \<open>string\<close> whose characters stand for the code points
  0 to 255.
\<close>

datatype cell = CNone | CStr string | CList "cell list"

type_synonym table = "cell list list"

text \<open>Truth value of a cell, as \<^verbatim>\<open>if cell\<close> and \<^verbatim>\<open>not cell\<close> test it.\<close>

fun truthy :: "cell \<Rightarrow> bool" where
  "truthy CNone = False"
| "truthy (CStr s) = (s \<noteq> [])"
| "truthy (CList xs) = (xs \<noteq> [])"

subsection \<open>Text methods\<close>

text \<open>\<^verbatim>\<open>str.isspace\<close> on one code point below 256.\<close>

definition py_isspace :: "char \<Rightarrow> bool" where
  "py_isspace c = (let n = (of_char c :: nat) in
     (9 \<le> n \<and> n \<le> 13) \<or> (28 \<le> n \<and> n \<le> 32) \<or> n = 133 \<or> n = 160)"

text \<open>\<^verbatim>\<open>str.isalpha\<close> on one code point below 256 (the letters of Latin-1).\<close>

definition isalpha_char :: "char \<Rightarrow> bool" where
  "isalpha_char c = (let n = (of_char c :: nat) in
     (65 \<le> n \<and> n \<le> 90) \<or> (97 \<le> n \<and> n \<le> 122) \<or> n = 170 \<or> n = 181 \<or> n = 186 \<or>
     (192 \<le> n \<and> n \<le> 214) \<or> (216 \<le> n \<and> n \<le> 246) \<or> (248 \<le> n \<and> n \<le> 255))"

text \<open>\<^verbatim>\<open>s.isalpha()\<close>: at least one character, and all of them letters.\<close>

definition py_isalpha :: "string \<Rightarrow> bool" where
  "py_isalpha s = (s \<noteq> [] \<and> list_all isalpha_char s)"

text \<open>\<^verbatim>\<open>s.strip()\<close>: white space removed at both ends.\<close>

definition py_strip :: "string \<Rightarrow> string" where
  "py_strip s = rev (dropWhile py_isspace (rev (dropWhile py_isspace s)))"

text \<open>\<^verbatim>\<open>s.split()\<close>: the maximal runs of characters that are not white space.\<close>

fun py_split :: "string \<Rightarrow> string list" where
  "py_split [] = []"
| "py_split (c # cs) =
     (if py_isspace c then py_split cs
      else (case cs of
              [] \<Rightarrow> [[c]]
            | d # ds \<Rightarrow> if py_isspace d then [c] # py_split cs
                       else (case py_split cs of [] \<Rightarrow> [[c]] | w # ws \<Rightarrow> (c # w) # ws)))"

text \<open>
  \<^verbatim>\<open>str(cell)\<close>. A string is itself and \<^verbatim>\<open>None\<close> is the text \<^verbatim>\<open>None\<close>. A list prints
  its elements' \<^verbatim>\<open>repr\<close> between brackets; the quoting that \<^verbatim>\<open>repr\<close> applies to a string
  is modelled without escapes. \<^verbatim>\<open>calculate_table_complexity\<close> never reaches \<^verbatim>\<open>str\<close> of a
  non-empty list: line 16 has raised before.
\<close>

fun join_comma :: "string list \<Rightarrow> string" where
  "join_comma [] = []"
| "join_comma [s] = s"
| "join_comma (s # t # ss) = s @ '', '' @ join_comma (t # ss)"

fun py_repr :: "cell \<Rightarrow> string" where
  "py_repr CNone = ''None''"
| "py_repr (CStr s) = [CHR 0x27] @ s @ [CHR 0x27]"
| "py_repr (CList xs) = ''['' @ join_comma (map py_repr xs) @ '']''"

fun py_str :: "cell \<Rightarrow> string" where
  "py_str (CStr s) = s"
| "py_str c = py_repr c"

subsection \<open>Floating point\<close>

text \<open>
  A finite double is modelled by the rational number it denotes. \<open>float64 x\<close> is the double
  nearest to \<open>x\<close>, ties to the even significand, for \<open>x\<close> in the range of the normal doubles:
  it is what a decimal literal denotes and what an IEEE operation returns for the exact
  result \<open>x\<close>.
\<close>

definition ilog2 :: "rat \<Rightarrow> int" where
  "ilog2 x = (let (p, q) = quotient_of x; d = bitlen p - bitlen q
              in if 2 powi d \<le> x then d else d - 1)"

definition round_half_even :: "rat \<Rightarrow> int" where
  "round_half_even x = (let f = \<lfloor>x\<rfloor>; r = x - of_int f
     in if r < 1 / 2 then f else if 1 / 2 < r then f + 1 else if even f then f else f + 1)"

definition float64 :: "rat \<Rightarrow> rat" where
  "float64 x = (if x = 0 then 0
     else (let u = 2 powi (ilog2 \<bar>x\<bar> - 52)
           in sgn x * of_int (round_half_even (\<bar>x\<bar> / u)) * u))"

definition fadd :: "rat \<Rightarrow> rat \<Rightarrow> rat" where
  "fadd a b = float64 (a + b)"

section \<open>The table classifier\<close>

datatype label = Simple | Moderate | Complex

text \<open>
  Line 14: \<^verbatim>\<open>max(len(row) for row in table) if table else 0\<close>.
\<close>

definition num_cols :: "table \<Rightarrow> nat" where
  "num_cols table = (case table of [] \<Rightarrow> 0 | row # rows \<Rightarrow> fold max (map length rows) (length row))"

definition total_cells :: "table \<Rightarrow> nat" where
  "total_cells table = length table * num_cols table"

text \<open>
  Line 16, the test \<^verbatim>\<open>not cell or cell.strip() == ""\<close> of one cell. The \<^verbatim>\<open>or\<close> stops at
  a falsy cell; a truthy cell is asked for its \<^verbatim>\<open>strip\<close> method, which a list does not
  have.
\<close>

fun is_blank :: "cell \<Rightarrow> error + bool" where
  "is_blank CNone = Inr True"
| "is_blank (CStr s) = Inr (s = [] \<or> py_strip s = [])"
| "is_blank (CList xs) = (if xs = [] then Inr True else Inl AttributeError)"

text \<open>The generator of line 16 over the cells in order: the first exception ends the sum.\<close>

fun count_blank :: "cell list \<Rightarrow> error + nat" where
  "count_blank [] = Inr 0"
| "count_blank (c # cs) =
     bind_err (is_blank c) (\<lambda>b. bind_err (count_blank cs) (\<lambda>n. Inr (if b then Suc n else n)))"

definition empty_cells :: "table \<Rightarrow> error + nat" where
  "empty_cells table = count_blank (concat table)"

text \<open>
  Line 17: \<^verbatim>\<open>empty_cells / total_cells if total_cells else 0\<close>. The quotient of two
  integers is kept exact; Python rounds it to the nearest double, and line 27 compares it with
  the double nearest to \<open>1/5\<close>. Rounding is monotone, so the comparison of the exact quotient
  with \<open>1/5\<close> gives the same answer unless the quotient exceeds \<open>1/5\<close> by less than the
  spacing of the doubles there, which needs a table of more than \<open>10^15\<close> cells.
\<close>

definition py_truediv :: "nat \<Rightarrow> nat \<Rightarrow> error + rat" where
  "py_truediv a b = (if b = 0 then Inl ZeroDivisionError else Inr (of_nat a / of_nat b))"

definition merged_cell_ratio :: "nat \<Rightarrow> nat \<Rightarrow> error + rat" where
  "merged_cell_ratio n_empty n_total =
     (if n_total \<noteq> 0 then py_truediv n_empty n_total else Inr 0)"

text \<open>
  The arithmetic of NumPy on a non-empty list of integers, kept exact: the mean, the
  population variance, and the percentile with linear interpolation between the order
  statistics around the position \<open>(n - 1) * q / 100\<close>.
\<close>

definition sample_mean :: "nat list \<Rightarrow> rat" where
  "sample_mean xs = of_nat (sum_list xs) / of_nat (length xs)"

definition sample_var :: "nat list \<Rightarrow> rat" where
  "sample_var xs = sum_list (map (\<lambda>x. (of_nat x - sample_mean xs)\<^sup>2) xs) / of_nat (length xs)"

definition percentile_linear :: "nat list \<Rightarrow> nat \<Rightarrow> rat" where
  "percentile_linear xs q =
     (let a = sort xs;
          n = length xs;
          lo = ((n - 1) * q) div 100;
          hi = min (lo + 1) (n - 1);
          g = of_nat (((n - 1) * q) mod 100) / 100
      in of_nat (a ! lo) + (of_nat (a ! hi) - of_nat (a ! lo)) * g)"

text \<open>
  What the NumPy functions return. A result is a number or \<^verbatim>\<open>nan\<close>, and a comparison with
  \<^verbatim>\<open>nan\<close> is false. On the empty list \<^verbatim>\<open>np.mean\<close> and \<^verbatim>\<open>np.std\<close> warn and return
  \<^verbatim>\<open>nan\<close>, and \<^verbatim>\<open>np.percentile\<close> raises an IndexError (index \<open>-1\<close> is out of bounds
  for an axis of size 0).
\<close>

datatype npfloat = NaN | Num rat

definition np_gt :: "npfloat \<Rightarrow> npfloat \<Rightarrow> bool" where
  "np_gt a b = (case a of NaN \<Rightarrow> False
                | Num x \<Rightarrow> (case b of NaN \<Rightarrow> False | Num y \<Rightarrow> y < x))"

definition np_mean :: "nat list \<Rightarrow> npfloat" where
  "np_mean xs = (if xs = [] then NaN else Num (sample_mean xs))"

definition np_var :: "nat list \<Rightarrow> npfloat" where
  "np_var xs = (if xs = [] then NaN else Num (sample_var xs))"

definition np_percentile :: "nat list \<Rightarrow> nat \<Rightarrow> error + rat" where
  "np_percentile xs q = (if xs = [] then Inl IndexError else Inr (percentile_linear xs q))"

text \<open>
  Lines 18 and 19: \<^verbatim>\<open>np.std(row_lengths) > 1\<close>, taken as the comparison of the exact
  variance with 1; the \<^verbatim>\<open>nan\<close> of the empty table fails the comparison. NumPy computes the
  deviation in double precision, and its rounded result can lie above 1 where the exact
  variance is 1, or within a rounding error of it. That rounding is not modelled, and no
  property below depends on the value of this signal.
\<close>

definition row_length_variation :: "table \<Rightarrow> bool" where
  "row_length_variation table =
     (let row_lengths = map length table in np_gt (np_var row_lengths) (Num 1))"

text \<open>Line 20.\<close>

fun nested_cell :: "cell \<Rightarrow> bool" where
  "nested_cell (CList xs) = True"
| "nested_cell c = (15 < length (py_split (py_str c)))"

definition nested_table :: "table \<Rightarrow> bool" where
  "nested_table table = list_ex nested_cell (concat table)"

text \<open>
  Line 21. The filter \<^verbatim>\<open>if isinstance(cell, str)\<close> keeps the strings of a row, and
  \<^verbatim>\<open>cell and cell.isalpha()\<close> must be truthy for each of them.
\<close>

fun str_cells :: "cell list \<Rightarrow> string list" where
  "str_cells [] = []"
| "str_cells (CStr s # cs) = s # str_cells cs"
| "str_cells (c # cs) = str_cells cs"

definition header_row :: "cell list \<Rightarrow> bool" where
  "header_row row = list_all (\<lambda>s. s \<noteq> [] \<and> py_isalpha s) (str_cells row)"

definition header_count :: "table \<Rightarrow> nat" where
  "header_count table = length (filter header_row (take 3 table))"

text \<open>
  Lines 22 to 24. Both NumPy calls stand under the guard \<^verbatim>\<open>if word_counts\<close>, which
  replaces them by 0 and by \<^verbatim>\<open>False\<close> when no cell is truthy.
\<close>

definition word_counts :: "table \<Rightarrow> nat list" where
  "word_counts table = map (\<lambda>cell. length (py_split (py_str cell))) (filter truthy (concat table))"

definition avg_word_count :: "nat list \<Rightarrow> npfloat" where
  "avg_word_count wc = (if wc \<noteq> [] then np_mean wc else Num 0)"

definition high_density :: "nat list \<Rightarrow> error + bool" where
  "high_density wc =
     (if wc \<noteq> [] then
        bind_err (np_percentile wc 75) (\<lambda>p. Inr (np_gt (avg_word_count wc) (Num p)))
      else Inr False)"

text \<open>
  Lines 26 to 32: the five terms, added from left to right in double precision. Each term is
  its weight when the signal holds and 0 otherwise.
\<close>

definition weight :: "bool \<Rightarrow> rat \<Rightarrow> rat" where
  "weight signal w = (if signal then float64 w else 0)"

definition merged_term :: "rat \<Rightarrow> rat" where
  "merged_term ratio = weight (1 / 5 < ratio) (4 / 10)"

definition variation_term :: "table \<Rightarrow> rat" where
  "variation_term table = weight (row_length_variation table) (3 / 10)"

definition nested_term :: "table \<Rightarrow> rat" where
  "nested_term table = weight (nested_table table) (4 / 10)"

definition header_term :: "table \<Rightarrow> rat" where
  "header_term table = weight (1 < header_count table) (3 / 10)"

definition table_score :: "rat \<Rightarrow> rat \<Rightarrow> rat \<Rightarrow> rat \<Rightarrow> rat \<Rightarrow> rat" where
  "table_score t1 t2 t3 t4 t5 = fadd (fadd (fadd (fadd t1 t2) t3) t4) t5"

text \<open>Line 33.\<close>

definition complexity_label :: "rat \<Rightarrow> label" where
  "complexity_label score =
     (if score \<le> float64 (3 / 10) then Simple
      else if score \<le> float64 (6 / 10) then Moderate else Complex)"

definition calculate_table_complexity :: "table \<Rightarrow> error + (rat \<times> label)" where
  "calculate_table_complexity table =
     bind_err (empty_cells table) (\<lambda>n_empty.
     bind_err (merged_cell_ratio n_empty (total_cells table)) (\<lambda>ratio.
     bind_err (high_density (word_counts table)) (\<lambda>dense.
       let score = table_score (merged_term ratio) (variation_term table) (nested_term table)
                     (header_term table) (weight dense (2 / 10))
       in Inr (score, complexity_label score))))"

text \<open>
  The fifth term as a function of the table: the weight 0.2 when line 24 yields
  \<^verbatim>\<open>True\<close>, and 0 otherwise.
\<close>

definition density_term :: "table \<Rightarrow> rat" where
  "density_term table = weight (high_density (word_counts table) = Inr True) (2 / 10)"

subsection \<open>The signals in the words of the specification\<close>

text \<open>
  A blank cell: an empty value, or a text of white space only. The empty-cell ratio: the
  blank cells over the number of rows times the greatest row length, and 0 when that product
  is 0.
\<close>

definition blank_cell :: "cell \<Rightarrow> bool" where
  "blank_cell c = (case c of CNone \<Rightarrow> True | CStr s \<Rightarrow> list_all py_isspace s | CList xs \<Rightarrow> xs = [])"

definition blank_ratio :: "table \<Rightarrow> rat" where
  "blank_ratio table =
     (let n_total = length table * Max (set (0 # map length table))
      in if n_total = 0 then 0
         else of_nat (length (filter blank_cell (concat table))) / of_nat n_total)"

text \<open>The cells on which line 16 raises: the lists that are not empty.\<close>

fun nonempty_list :: "cell \<Rightarrow> bool" where
  "nonempty_list (CList (x # xs)) = True"
| "nonempty_list _ = False"

text \<open>
  A header row as the specification words it: every string cell that is not empty is purely
  alphabetic.
\<close>

definition spec_header_row :: "cell list \<Rightarrow> bool" where
  "spec_header_row row =
     list_all (\<lambda>c. case c of CStr s \<Rightarrow> s = [] \<or> py_isalpha s | _ \<Rightarrow> True) row"

section \<open>What the parsing libraries deliver\<close>

text \<open>
  The libraries are outside the repository. Each parsed document is modelled by the data the
  extraction functions read from it.
\<close>

text \<open>
  A PDF page: the tables of \<^verbatim>\<open>page.extract_tables()\<close> (a cell is a \<^verbatim>\<open>str\<close> or
  \<^verbatim>\<open>None\<close>), the number of entries of \<^verbatim>\<open>page.get_images(full=True)\<close>, and the layout
  elements of pdfminer, of which the text boxes carry a text.
\<close>

datatype layout_element = LTTextBox string | LTOther

record pdf_page =
  page_tables :: "string option list list list"
  page_images :: nat
  page_layout :: "layout_element list"

text \<open>
  A word-processor document: the cell texts of its tables, the number of inline shapes, the
  paragraph texts, and for each section the number of nodes that the path
  \<^verbatim>\<open>./w:cols/w:col\<close> selects.
\<close>

record docx_document =
  docx_tables :: "string list list list"
  docx_inline_shapes :: nat
  docx_paragraphs :: "string list"
  docx_sections :: "nat list"

text \<open>
  A slide shape: the cell texts of its table when \<^verbatim>\<open>has_table\<close> holds, the text of its
  text frame when \<^verbatim>\<open>has_text_frame\<close> holds, and its \<^verbatim>\<open>shape_type\<close> (13 is a picture).
\<close>

record shape =
  shape_table :: "string list list option"
  shape_text_frame :: "string option"
  shape_type :: "nat option"

text \<open>A file on disk is of one of the three formats, or of none.\<close>

datatype document =
    PdfFile "pdf_page list"
  | DocxFile docx_document
  | PptxFile "shape list list"
  | Unreadable

fun open_pdf :: "document \<Rightarrow> error + pdf_page list" where
  "open_pdf (PdfFile pages) = Inr pages"
| "open_pdf _ = Inl DocumentParseError"

fun open_docx :: "document \<Rightarrow> error + docx_document" where
  "open_docx (DocxFile d) = Inr d"
| "open_docx _ = Inl DocumentParseError"

fun open_pptx :: "document \<Rightarrow> error + shape list list" where
  "open_pptx (PptxFile slides) = Inr slides"
| "open_pptx _ = Inl DocumentParseError"

section \<open>The extraction functions\<close>

text \<open>
  \<^verbatim>\<open>sum(1 for table in tables if calculate_table_complexity(table)[1] == "Complex")\<close>,
  the form shared by lines 42, 62 and 79. An exception of the classifier ends the count.
\<close>

fun count_complex :: "table list \<Rightarrow> error + int" where
  "count_complex [] = Inr 0"
| "count_complex (t # ts) =
     bind_err (calculate_table_complexity t) (\<lambda>r.
       bind_err (count_complex ts) (\<lambda>n. Inr (if snd r = Complex then n + 1 else n)))"

definition pdf_cell :: "string option \<Rightarrow> cell" where
  "pdf_cell c = (case c of None \<Rightarrow> CNone | Some s \<Rightarrow> CStr s)"

definition text_table :: "string list list \<Rightarrow> table" where
  "text_table rows = map (map CStr) rows"

text \<open>Lines 37 to 43: the pages in order, each adding its complex tables.\<close>

fun count_complex_pages :: "pdf_page list \<Rightarrow> int \<Rightarrow> error + int" where
  "count_complex_pages [] complex_table_count = Inr complex_table_count"
| "count_complex_pages (page # pages) complex_table_count =
     bind_err (count_complex (map (map (map pdf_cell)) (page_tables page))) (\<lambda>n.
       count_complex_pages pages (complex_table_count + n))"

definition count_complex_tables_pdf :: "document \<Rightarrow> error + int" where
  "count_complex_tables_pdf pdf_path =
     bind_err (open_pdf pdf_path) (\<lambda>pages. count_complex_pages pages 0)"

definition count_images_pdf :: "document \<Rightarrow> error + int" where
  "count_images_pdf pdf_path =
     bind_err (open_pdf pdf_path) (\<lambda>pages. Inr (int (sum_list (map page_images pages))))"

text \<open>Lines 49 to 57.\<close>

fun dense_box :: "layout_element \<Rightarrow> bool" where
  "dense_box (LTTextBox s) = (500 < length s)"
| "dense_box LTOther = False"

fun layout_pages :: "pdf_page list \<Rightarrow> int \<times> int \<Rightarrow> int \<times> int" where
  "layout_pages [] (num_columns, dense_paragraphs) = (num_columns, dense_paragraphs)"
| "layout_pages (page # pages) (num_columns, dense_paragraphs) =
     (let paragraph_count = int (length (filter dense_box (page_layout page)))
      in layout_pages pages
           (if 5 < paragraph_count then 2 else num_columns, dense_paragraphs + paragraph_count))"

definition analyze_layout_complexity_pdf :: "document \<Rightarrow> error + (int \<times> int)" where
  "analyze_layout_complexity_pdf pdf_path =
     bind_err (open_pdf pdf_path) (\<lambda>pages. Inr (layout_pages pages (1, 0)))"

text \<open>Lines 60 to 74.\<close>

definition count_tables_docx :: "document \<Rightarrow> error + int" where
  "count_tables_docx doc_path =
     bind_err (open_docx doc_path) (\<lambda>doc. count_complex (map text_table (docx_tables doc)))"

definition count_images_docx :: "document \<Rightarrow> error + int" where
  "count_images_docx doc_path =
     bind_err (open_docx doc_path) (\<lambda>doc. Inr (int (docx_inline_shapes doc)))"

fun section_columns :: "nat list \<Rightarrow> int \<Rightarrow> int" where
  "section_columns [] num_columns = num_columns"
| "section_columns (cols # sections) num_columns =
     section_columns sections (if cols \<noteq> 0 then max num_columns (int cols) else num_columns)"

definition analyze_layout_complexity_docx :: "document \<Rightarrow> error + (int \<times> int)" where
  "analyze_layout_complexity_docx doc_path =
     bind_err (open_docx doc_path) (\<lambda>doc.
       let dense_paragraphs = int (length (filter (\<lambda>para. 500 < length para) (docx_paragraphs doc)))
       in Inr (section_columns (docx_sections doc) 1, dense_paragraphs))"

text \<open>Lines 77 to 87.\<close>

definition shape_tables :: "shape list list \<Rightarrow> table list" where
  "shape_tables slides =
     List.map_filter (\<lambda>sh. map_option text_table (shape_table sh)) (concat slides)"

definition count_tables_pptx :: "document \<Rightarrow> error + int" where
  "count_tables_pptx ppt_path =
     bind_err (open_pptx ppt_path) (\<lambda>slides. count_complex (shape_tables slides))"

definition count_images_pptx :: "document \<Rightarrow> error + int" where
  "count_images_pptx ppt_path =
     bind_err (open_pptx ppt_path) (\<lambda>slides.
       Inr (int (length (filter (\<lambda>sh. shape_type sh = Some 13) (concat slides)))))"

definition dense_shape :: "shape \<Rightarrow> bool" where
  "dense_shape sh = (case shape_text_frame sh of None \<Rightarrow> False | Some s \<Rightarrow> 500 < length s)"

definition analyze_layout_complexity_pptx :: "document \<Rightarrow> error + (int \<times> int)" where
  "analyze_layout_complexity_pptx ppt_path =
     bind_err (open_pptx ppt_path) (\<lambda>slides.
       let dense_paragraphs = int (length (filter dense_shape (concat slides)))
       in Inr (if dense_paragraphs < 5 then 1 else 2, dense_paragraphs))"

section \<open>The document scorer\<close>

datatype level = Low | Medium | High

record report =
  complex_tables_found :: int
  columns_detected :: int
  dense_paragraphs_found :: int
  images_found :: int
  final_complexity_score :: int
  complexity_level :: level

text \<open>Lines 105 to 118, from the four measurements to the report.\<close>

definition layout_score :: "int \<Rightarrow> int \<Rightarrow> int" where
  "layout_score num_columns dense_paragraphs =
     (if 1 < num_columns \<or> 0 < dense_paragraphs then num_columns * 20 + dense_paragraphs * 5 else 0)"

definition score_features :: "int \<Rightarrow> int \<Rightarrow> int \<Rightarrow> int \<Rightarrow> report" where
  "score_features num_complex_tables num_images num_columns dense_paragraphs =
     (let table_score = num_complex_tables * 20;
          image_score = num_images * 10;
          final_score = table_score + layout_score num_columns dense_paragraphs + image_score
      in \<lparr> complex_tables_found = num_complex_tables,
           columns_detected = num_columns,
           dense_paragraphs_found = dense_paragraphs,
           images_found = num_images,
           final_complexity_score = final_score,
           complexity_level =
             (if 100 < final_score then High else if 50 < final_score then Medium else Low) \<rparr>)"

text \<open>
  Lines 90 to 118. The \<^verbatim>\<open>if\<close> chain has no \<^verbatim>\<open>else\<close>: for any other \<^verbatim>\<open>file_type\<close> no
  branch runs and line 105 reads \<^verbatim>\<open>num_complex_tables\<close>, which was never assigned.
\<close>

definition calculate_document_complexity :: "document \<Rightarrow> string \<Rightarrow> error + report" where
  "calculate_document_complexity file_path file_type =
     (if file_type = ''pdf'' then
        bind_err (count_complex_tables_pdf file_path) (\<lambda>num_complex_tables.
        bind_err (count_images_pdf file_path) (\<lambda>num_images.
        bind_err (analyze_layout_complexity_pdf file_path) (\<lambda>(num_columns, dense_paragraphs).
          Inr (score_features num_complex_tables num_images num_columns dense_paragraphs))))
      else if file_type = ''docx'' then
        bind_err (count_tables_docx file_path) (\<lambda>num_complex_tables.
        bind_err (count_images_docx file_path) (\<lambda>num_images.
        bind_err (analyze_layout_complexity_docx file_path) (\<lambda>(num_columns, dense_paragraphs).
          Inr (score_features num_complex_tables num_images num_columns dense_paragraphs))))
      else if file_type = ''pptx'' then
        bind_err (count_tables_pptx file_path) (\<lambda>num_complex_tables.
        bind_err (count_images_pptx file_path) (\<lambda>num_images.
        bind_err (analyze_layout_complexity_pptx file_path) (\<lambda>(num_columns, dense_paragraphs).
          Inr (score_features num_complex_tables num_images num_columns 0))))
      else Inl UnboundLocalError)"

section \<open>Properties of the document scorer\<close>

lemma bind_err_simps:
  "bind_err (Inl e) f = Inl e"
  "bind_err (Inr x) f = f x"
  by (simp_all add: bind_err_def)

text \<open>
  Claim C1. For non-negative measurements the final score is
  \<open>tables * 20 + images * 10\<close> plus the layout score \<open>columns * 20 + dense * 5\<close>, which is
  counted only when there is more than one column or at least one dense paragraph. The level
  is High above 100, Medium above 50 and up to 100, Low up to 50. The measurements
  \<open>(2, 3, 1, 0)\<close> give 70 and Medium, and \<open>(2, 3, 2, 0)\<close> give 110 and High.
\<close>

theorem score_features_formula:
  assumes "0 \<le> ct" and "0 \<le> ic" and "0 \<le> cc" and "0 \<le> dp"
  shows "final_complexity_score (score_features ct ic cc dp) =
           ct * 20 + ic * 10 + (if 1 < cc \<or> 0 < dp then cc * 20 + dp * 5 else 0)
       \<and> (complexity_level (score_features ct ic cc dp) = High
            \<longleftrightarrow> 100 < final_complexity_score (score_features ct ic cc dp))
       \<and> (complexity_level (score_features ct ic cc dp) = Medium
            \<longleftrightarrow> 50 < final_complexity_score (score_features ct ic cc dp)
              \<and> final_complexity_score (score_features ct ic cc dp) \<le> 100)
       \<and> (complexity_level (score_features ct ic cc dp) = Low
            \<longleftrightarrow> final_complexity_score (score_features ct ic cc dp) \<le> 50)
       \<and> final_complexity_score (score_features 2 3 1 0) = 70
       \<and> complexity_level (score_features 2 3 1 0) = Medium
       \<and> final_complexity_score (score_features 2 3 2 0) = 110
       \<and> complexity_level (score_features 2 3 2 0) = High"
  by (simp add: score_features_def layout_score_def Let_def)

theorem score_features_formula_witness:
  "final_complexity_score (score_features 1 4 3 2) = 130
   \<and> complexity_level (score_features 1 4 3 2) = High"
  using score_features_formula [of 1 4 3 2]
  by (simp add: score_features_def layout_score_def Let_def)

text \<open>
  Claim C10. For non-negative measurements the final score is a non-negative multiple of 5.
\<close>

theorem final_score_multiple_of_five:
  assumes "0 \<le> ct" and "0 \<le> ic" and "0 \<le> cc" and "0 \<le> dp"
  shows "0 \<le> final_complexity_score (score_features ct ic cc dp)
       \<and> 5 dvd final_complexity_score (score_features ct ic cc dp)"
proof -
  have "final_complexity_score (score_features ct ic cc dp) =
          5 * (ct * 4 + ic * 2 + (if 1 < cc \<or> 0 < dp then cc * 4 + dp else 0))"
    by (simp add: score_features_def layout_score_def Let_def)
  moreover have "0 \<le> ct * 4 + ic * 2 + (if 1 < cc \<or> 0 < dp then cc * 4 + dp else 0)"
    using assms by simp
  ultimately show ?thesis by simp
qed

theorem final_score_multiple_of_five_witness:
  "0 \<le> final_complexity_score (score_features 1 0 2 3)
   \<and> 5 dvd final_complexity_score (score_features 1 0 2 3)
   \<and> final_complexity_score (score_features 1 0 2 3) = 75"
  using final_score_multiple_of_five [of 1 0 2 3]
  by (simp add: score_features_def layout_score_def Let_def)

text \<open>
  Claim C9, as the specification states it, asks for an InputError on every file type other
  than \<^verbatim>\<open>pdf\<close>, \<^verbatim>\<open>docx\<close> and \<^verbatim>\<open>pptx\<close>. For the type \<^verbatim>\<open>txt\<close> the function raises
  another exception.
\<close>

theorem unsupported_type_counterexample:
  "''txt'' \<notin> {''pdf'', ''docx'', ''pptx''}
   \<and> calculate_document_complexity Unreadable ''txt'' \<noteq> Inl InputError"
  by (simp add: calculate_document_complexity_def)

text \<open>
  Claim C9, amended. For every file type other than \<^verbatim>\<open>pdf\<close>, \<^verbatim>\<open>docx\<close> and \<^verbatim>\<open>pptx\<close>
  the function returns no report and opens no file: whatever the file is, also an unreadable
  one, the caller gets the UnboundLocalError of line 105.
\<close>

theorem unsupported_type_unbound_local:
  assumes "file_type \<notin> {''pdf'', ''docx'', ''pptx''}"
  shows "calculate_document_complexity file_path file_type = Inl UnboundLocalError"
  using assms by (simp add: calculate_document_complexity_def)

theorem unsupported_type_unbound_local_witness:
  "''txt'' \<notin> {''pdf'', ''docx'', ''pptx''}
   \<and> calculate_document_complexity Unreadable ''txt'' = Inl UnboundLocalError
   \<and> calculate_document_complexity (PptxFile []) ''PPTX'' = Inl UnboundLocalError"
  using unsupported_type_unbound_local [of "''txt''" Unreadable]
    unsupported_type_unbound_local [of "''PPTX''" "PptxFile []"]
  by simp

section \<open>Rounding to double precision\<close>

text \<open>
  \<open>ilog2 x\<close> is the exponent of the binade of \<open>x\<close>, so \<open>float64\<close> rounds to a multiple
  of the spacing of the doubles around \<open>x\<close>. The sums of the classifier lie between \<open>1/8\<close>
  and 2, where four binades suffice.
\<close>

lemma ilog2_bounds:
  assumes "0 < x"
  shows "2 powi (ilog2 x) \<le> x \<and> x < 2 powi (ilog2 x + 1)"
proof -
  obtain p q where pq: "quotient_of x = (p, q)" by force
  have q: "0 < q" using quotient_of_denom_pos [OF pq] .
  have x: "x = of_int p / of_int q" using quotient_of_div [OF pq] .
  have p: "0 < p" using assms q unfolding x by (simp add: zero_less_divide_iff)
  define a where "a = nat (bitlen p - 1)"
  define b where "b = nat (bitlen q - 1)"
  have bp: "bitlen p = int a + 1" and bq: "bitlen q = int b + 1"
    using p q bitlen_eq_zero_iff [of p] bitlen_eq_zero_iff [of q] bitlen_nonneg [of p]
      bitlen_nonneg [of q] by (auto simp: a_def b_def)
  have na: "nat (bitlen p) = Suc a" and nb: "nat (bitlen q) = Suc b"
    by (simp_all add: bp bq)
  have p1: "2 ^ a \<le> p" and p2: "p < 2 ^ Suc a"
    using bitlen_bounds [OF p] unfolding na a_def [symmetric] by blast+
  have q1: "2 ^ b \<le> q" and q2: "q < 2 ^ Suc b"
    using bitlen_bounds [OF q] unfolding nb b_def [symmetric] by blast+
  have d: "bitlen p - bitlen q = int a - int b" by (simp add: bp bq)
  have P1: "(2::rat) ^ a \<le> of_int p" and P2: "(of_int p :: rat) < 2 ^ Suc a"
    using p1 p2 by (metis of_int_le_iff of_int_numeral of_int_power, metis of_int_less_iff of_int_numeral of_int_power)
  have Q1: "(2::rat) ^ b \<le> of_int q" and Q2: "(of_int q :: rat) < 2 ^ Suc b"
    using q1 q2 by (metis of_int_le_iff of_int_numeral of_int_power, metis of_int_less_iff of_int_numeral of_int_power)
  have Qpos: "(0::rat) < of_int q" using q by simp
  have pw: "\<And>m n. (2::rat) powi (int m - int n) = 2 ^ m / 2 ^ n"
    by (simp add: power_int_diff)
  have up: "x < 2 powi (int a - int b + 1)"
  proof -
    have "x < 2 ^ Suc a / of_int q" unfolding x using P2 Qpos by (simp add: divide_strict_right_mono)
    also have "\<dots> \<le> 2 ^ Suc a / 2 ^ b" using Q1 by (simp add: frac_le)
    also have "\<dots> = 2 powi (int (Suc a) - int b)" by (simp only: pw)
    finally show ?thesis by (simp add: algebra_simps)
  qed
  have lo: "2 powi (int a - int b - 1) \<le> x"
  proof -
    have "(2::rat) powi (int a - int (Suc b)) = 2 ^ a / 2 ^ Suc b" by (simp only: pw)
    also have "\<dots> \<le> of_int p / 2 ^ Suc b" using P1 by (simp add: divide_right_mono)
    also have "\<dots> \<le> x" unfolding x using Q2 Qpos p by (simp add: frac_le)
    finally show ?thesis by (simp add: algebra_simps)
  qed
  show ?thesis
    using up lo by (simp add: ilog2_def pq d Let_def)
qed

lemma ilog2_unique:
  assumes "2 powi e \<le> x" and "x < 2 powi (e + 1)"
  shows "ilog2 x = e"
proof -
  have pos: "0 < x"
    using assms(1) by (rule less_le_trans [rotated]) simp
  from ilog2_bounds [OF pos] have l: "2 powi (ilog2 x) \<le> x" and u: "x < 2 powi (ilog2 x + 1)"
    by simp_all
  have "(2::rat) powi e < 2 powi (ilog2 x + 1)" using assms(1) u by simp
  then have 1: "e < ilog2 x + 1"
    using power_int_increasing [of "ilog2 x + 1" e "2::rat"] by (cases "e < ilog2 x + 1") simp_all
  have "(2::rat) powi (ilog2 x) < 2 powi (e + 1)" using l assms(2) by simp
  then have 2: "ilog2 x < e + 1"
    using power_int_increasing [of "e + 1" "ilog2 x" "2::rat"] by (cases "ilog2 x < e + 1") simp_all
  from 1 2 show ?thesis by simp
qed

lemma float64_binade:
  assumes "2 powi e \<le> x" and "x < 2 powi (e + 1)"
  shows "float64 x = of_int (round_half_even (x / 2 powi (e - 52))) * 2 powi (e - 52)"
proof -
  have pos: "0 < x"
    using assms(1) by (rule less_le_trans [rotated]) simp
  then show ?thesis
    by (simp add: float64_def Let_def ilog2_unique [OF assms])
qed

lemma floor_divide_numeral:
  "\<lfloor>numeral a / numeral b :: rat\<rfloor> = numeral a div numeral b"
  using floor_divide_of_int_eq [of "numeral a" "numeral b", where ?'a = rat] by simp

lemma float64_small:
  assumes "1 / 8 \<le> x" and "x < 2"
  shows "float64 x =
     (if x < 1 / 4 then of_int (round_half_even (x * 36028797018963968)) / 36028797018963968
      else if x < 1 / 2 then of_int (round_half_even (x * 18014398509481984)) / 18014398509481984
      else if x < 1 then of_int (round_half_even (x * 9007199254740992)) / 9007199254740992
      else of_int (round_half_even (x * 4503599627370496)) / 4503599627370496)"
proof -
  consider "x < 1 / 4" | "1 / 4 \<le> x" "x < 1 / 2" | "1 / 2 \<le> x" "x < 1" | "1 \<le> x"
    by linarith
  then show ?thesis
  proof cases
    case 1
    have "float64 x = of_int (round_half_even (x / 2 powi (- 3 - 52))) * 2 powi (- 3 - 52)"
      using assms 1 by (intro float64_binade) (simp_all add: power_int_minus inverse_eq_divide)
    then show ?thesis using 1 by (simp add: power_int_minus inverse_eq_divide)
  next
    case 2
    have "float64 x = of_int (round_half_even (x / 2 powi (- 2 - 52))) * 2 powi (- 2 - 52)"
      using assms 2 by (intro float64_binade) (simp_all add: power_int_minus inverse_eq_divide)
    then show ?thesis using 2 by (simp add: power_int_minus inverse_eq_divide)
  next
    case 3
    have "float64 x = of_int (round_half_even (x / 2 powi (- 1 - 52))) * 2 powi (- 1 - 52)"
      using assms 3 by (intro float64_binade) (simp_all add: power_int_minus inverse_eq_divide)
    then show ?thesis using 3 by (simp add: power_int_minus inverse_eq_divide)
  next
    case 4
    have "float64 x = of_int (round_half_even (x / 2 powi (0 - 52))) * 2 powi (0 - 52)"
      using assms 4 by (intro float64_binade) (simp_all add: power_int_minus inverse_eq_divide)
    then show ?thesis using 4 by (simp add: power_int_minus inverse_eq_divide)
  qed
qed

lemma float64_literals:
  "float64 (1 / 5) = 3602879701896397 / 18014398509481984"
  "float64 (3 / 10) = 5404319552844595 / 18014398509481984"
  "float64 (2 / 5) = 3602879701896397 / 9007199254740992"
  "float64 (3 / 5) = 5404319552844595 / 9007199254740992"
  "float64 (8 / 5) = 3602879701896397 / 2251799813685248"
  by (simp_all add: float64_small round_half_even_def Let_def floor_divide_numeral)

lemma fadd_zero: "fadd 0 0 = 0"
  by (simp add: fadd_def float64_def)

lemma fadd_small:
  "1 / 8 \<le> a + b \<Longrightarrow> a + b < 2 \<Longrightarrow> fadd a b =
     (if a + b < 1 / 4 then of_int (round_half_even ((a + b) * 36028797018963968)) / 36028797018963968
      else if a + b < 1 / 2 then of_int (round_half_even ((a + b) * 18014398509481984)) / 18014398509481984
      else if a + b < 1 then of_int (round_half_even ((a + b) * 9007199254740992)) / 9007199254740992
      else of_int (round_half_even ((a + b) * 4503599627370496)) / 4503599627370496)"
  unfolding fadd_def by (rule float64_small)

lemma weights_range:
  "0 \<le> table_score (weight a (4 / 10)) (weight b (3 / 10)) (weight c (4 / 10))
                         (weight d (3 / 10)) (weight e (2 / 10))
     \<and> table_score (weight a (4 / 10)) (weight b (3 / 10)) (weight c (4 / 10))
                         (weight d (3 / 10)) (weight e (2 / 10)) \<le> float64 (16 / 10)"
  by (cases a; cases b; cases c; cases d; cases e)
     (simp_all add: table_score_def weight_def float64_literals fadd_zero fadd_small
        round_half_even_def Let_def floor_divide_numeral)

text \<open>
  The rounding is visible in the labels: with the empty-cell and the density signal alone,
  \<^verbatim>\<open>0.4 + 0.2\<close> is the double above \<^verbatim>\<open>0.6\<close>, and the table is labelled Complex.
\<close>

lemma merged_and_density_label:
  "float64 (6 / 10) < table_score (weight True (4 / 10)) (weight False (3 / 10))
       (weight False (4 / 10)) (weight False (3 / 10)) (weight True (2 / 10))
   \<and> complexity_label (table_score (weight True (4 / 10)) (weight False (3 / 10))
       (weight False (4 / 10)) (weight False (3 / 10)) (weight True (2 / 10))) = Complex"
  by (simp add: table_score_def weight_def float64_literals fadd_zero fadd_small
        round_half_even_def Let_def floor_divide_numeral complexity_label_def)

lemma thresholds_ordered: "float64 (3 / 10) < float64 (6 / 10)"
  by (simp add: float64_literals)

lemma weights_nonzero:
  "float64 (4 / 10) \<noteq> 0" "float64 (3 / 10) \<noteq> 0" "float64 (2 / 10) \<noteq> 0"
  by (simp_all add: float64_literals)

section \<open>Properties of the table classifier\<close>

lemma is_blank_error: "is_blank c = Inl e \<Longrightarrow> e = AttributeError"
  by (cases c) (auto split: if_splits)

lemma count_blank_error: "count_blank cs = Inl e \<Longrightarrow> e = AttributeError"
proof (induction cs)
  case Nil
  then show ?case by simp
next
  case (Cons c cs)
  then show ?case
    by (auto simp: bind_err_def split: sum.splits dest: is_blank_error)
qed

lemma merged_cell_ratio_value:
  "merged_cell_ratio n m = Inr (if m = 0 then 0 else of_nat n / of_nat m)"
  by (simp add: merged_cell_ratio_def py_truediv_def)

lemma high_density_value:
  "high_density wc = Inr (wc \<noteq> [] \<and> percentile_linear wc 75 < sample_mean wc)"
  by (simp add: high_density_def np_percentile_def avg_word_count_def np_mean_def np_gt_def
        bind_err_def)

lemma density_term_value:
  "density_term table =
     weight (word_counts table \<noteq> []
             \<and> percentile_linear (word_counts table) 75 < sample_mean (word_counts table))
       (2 / 10)"
  by (simp add: density_term_def high_density_value)

lemma calculate_table_complexity_Inl:
  "calculate_table_complexity table = Inl e \<Longrightarrow> empty_cells table = Inl e"
  by (auto simp: calculate_table_complexity_def bind_err_def merged_cell_ratio_value
           high_density_value Let_def
           split: sum.splits)

lemma calculate_table_complexity_Inr:
  assumes "calculate_table_complexity table = Inr (s, l)"
  shows "\<exists>n. empty_cells table = Inr n
           \<and> s = table_score
                 (merged_term (if total_cells table = 0 then 0
                               else of_nat n / of_nat (total_cells table)))
                 (variation_term table) (nested_term table) (header_term table)
                 (density_term table)
           \<and> l = complexity_label s"
  using assms
  by (auto simp: calculate_table_complexity_def bind_err_def merged_cell_ratio_value
           high_density_value density_term_value Let_def
           split: sum.splits)

lemma float64_zero: "float64 0 = 0"
  by (simp add: float64_def)

lemma table_score_zero: "table_score 0 0 0 0 0 = 0"
  by (simp add: table_score_def fadd_def float64_zero)

lemma complexity_label_zero: "complexity_label 0 = Simple"
  by code_simp

text \<open>
  Claim C3. The empty table is classified with score 0 and label Simple, and no exception.
  Each quotient has a guard that replaces it by a fixed value where the operation itself
  would fail: with no cell position the division of line 17 would raise a
  ZeroDivisionError, and the ratio is 0; with no truthy cell \<^verbatim>\<open>np.mean\<close> would be
  \<^verbatim>\<open>nan\<close> and \<^verbatim>\<open>np.percentile\<close> would raise an IndexError, and the mean word count is 0
  and the density signal \<^verbatim>\<open>False\<close>. So the only exception that the classifier raises, on
  any table, is the AttributeError of line 16.
\<close>

theorem empty_table_simple:
  "calculate_table_complexity [] = Inr (0, Simple)
   \<and> (\<forall>table. total_cells table = 0 \<longrightarrow>
         (\<forall>n. py_truediv n (total_cells table) = Inl ZeroDivisionError
              \<and> merged_cell_ratio n (total_cells table) = Inr 0))
   \<and> (\<forall>table. word_counts table = [] \<longrightarrow>
         np_mean (word_counts table) = NaN
         \<and> avg_word_count (word_counts table) = Num 0
         \<and> np_percentile (word_counts table) 75 = Inl IndexError
         \<and> high_density (word_counts table) = Inr False
         \<and> density_term table = 0)
   \<and> (\<forall>table e. calculate_table_complexity table = Inl e \<longrightarrow> e = AttributeError)"
proof (intro conjI allI impI)
  show "calculate_table_complexity [] = Inr (0, Simple)"
    by code_simp
next
  fix table n assume "total_cells table = 0"
  then show "py_truediv n (total_cells table) = Inl ZeroDivisionError"
    by (simp add: py_truediv_def)
next
  fix table n assume "total_cells table = 0"
  then show "merged_cell_ratio n (total_cells table) = Inr 0"
    by (simp add: merged_cell_ratio_def)
next
  fix table assume wc: "word_counts table = []"
  show "np_mean (word_counts table) = NaN"
    using wc by (simp add: np_mean_def)
  show "avg_word_count (word_counts table) = Num 0"
    using wc by (simp add: avg_word_count_def)
  show "np_percentile (word_counts table) 75 = Inl IndexError"
    using wc by (simp add: np_percentile_def)
  show "high_density (word_counts table) = Inr False"
    using wc by (simp add: high_density_def)
  show "density_term table = 0"
    using wc by (simp add: density_term_def weight_def high_density_def)
next
  fix table e assume "calculate_table_complexity table = Inl e"
  then have "count_blank (concat table) = Inl e"
    using calculate_table_complexity_Inl by (simp add: empty_cells_def)
  then show "e = AttributeError"
    by (rule count_blank_error)
qed

theorem empty_table_simple_witness:
  "total_cells [[]] = 0
   \<and> py_truediv 0 (total_cells [[]]) = Inl ZeroDivisionError
   \<and> merged_cell_ratio 0 (total_cells [[]]) = Inr 0
   \<and> calculate_table_complexity [[]] = Inr (0, Simple)
   \<and> word_counts [[CNone, CStr []]] = []
   \<and> np_percentile (word_counts [[CNone, CStr []]]) 75 = Inl IndexError
   \<and> high_density (word_counts [[CNone, CStr []]]) = Inr False
   \<and> avg_word_count (word_counts [[CNone, CStr []]]) = Num 0
   \<and> density_term [[CNone, CStr []]] = 0
   \<and> calculate_table_complexity [[CList [CNone]]] = Inl AttributeError"
proof -
  have t: "total_cells [[]] = 0"
    by (simp add: total_cells_def num_cols_def)
  have w: "word_counts [[CNone, CStr []]] = []"
    by (simp add: word_counts_def)
  have c: "calculate_table_complexity [[CList [CNone]]] = Inl AttributeError"
    by (simp add: calculate_table_complexity_def empty_cells_def bind_err_def)
  have a: "calculate_table_complexity [[]] = Inr (0, Simple)"
    by code_simp
  from empty_table_simple t w c a show ?thesis by blast
qed

lemma calculate_table_complexity_eval:
  assumes "empty_cells table = Inr n"
  shows "calculate_table_complexity table =
           (let s = table_score
                      (merged_term (if total_cells table = 0 then 0
                                    else of_nat n / of_nat (total_cells table)))
                      (variation_term table) (nested_term table) (header_term table)
                      (density_term table)
            in Inr (s, complexity_label s))"
  using assms
  by (simp add: calculate_table_complexity_def bind_err_def merged_cell_ratio_value
        high_density_value density_term_value Let_def)

text \<open>
  Claim C6. Whenever the classifier returns, the score lies between 0 and 1.6, and the label
  is the step function of the score: Simple up to 0.3, Moderate above 0.3 and up to 0.6,
  Complex above 0.6. The score is a double and the bounds are the doubles that the literals
  \<^verbatim>\<open>0.3\<close>, \<^verbatim>\<open>0.6\<close> and \<^verbatim>\<open>1.6\<close> denote, compared as Python compares them.
\<close>

theorem score_range_and_label:
  assumes "calculate_table_complexity table = Inr (s, l)"
  shows "0 \<le> s \<and> s \<le> float64 (16 / 10)
       \<and> (l = Simple \<longleftrightarrow> s \<le> float64 (3 / 10))
       \<and> (l = Moderate \<longleftrightarrow> float64 (3 / 10) < s \<and> s \<le> float64 (6 / 10))
       \<and> (l = Complex \<longleftrightarrow> float64 (6 / 10) < s)"
proof -
  from calculate_table_complexity_Inr [OF assms] obtain n where
    s: "s = table_score
              (merged_term (if total_cells table = 0 then 0
                            else of_nat n / of_nat (total_cells table)))
              (variation_term table) (nested_term table) (header_term table)
              (density_term table)"
    and l: "l = complexity_label s"
    by blast
  have range: "0 \<le> s \<and> s \<le> float64 (16 / 10)"
    unfolding s merged_term_def variation_term_def nested_term_def header_term_def
      density_term_def
    by (rule weights_range)
  have labels: "(l = Simple \<longleftrightarrow> s \<le> float64 (3 / 10))
       \<and> (l = Moderate \<longleftrightarrow> float64 (3 / 10) < s \<and> s \<le> float64 (6 / 10))
       \<and> (l = Complex \<longleftrightarrow> float64 (6 / 10) < s)"
    unfolding l complexity_label_def using thresholds_ordered by auto
  from range labels show ?thesis by blast
qed

theorem score_range_and_label_witness:
  "calculate_table_complexity [[CStr ''a'', CNone], [CStr ''b'', CNone]]
     = Inr (float64 (7 / 10), Complex)
   \<and> 0 \<le> float64 (7 / 10) \<and> float64 (7 / 10) \<le> float64 (16 / 10)
   \<and> float64 (6 / 10) < float64 (7 / 10)"
proof -
  let ?T = "[[CStr ''a'', CNone], [CStr ''b'', CNone]]"
  have e: "empty_cells ?T = Inr 2" by code_simp
  have t: "total_cells ?T = 4" by code_simp
  have v: "variation_term ?T = 0" by code_simp
  have n: "nested_term ?T = 0" by code_simp
  have h: "1 < header_count ?T" by code_simp
  have d: "density_term ?T = 0" by code_simp
  have f: "float64 (7 / 10) = 3152519739159347 / 4503599627370496"
    by (simp add: float64_small round_half_even_def Let_def floor_divide_numeral)
  have c: "calculate_table_complexity ?T = Inr (float64 (7 / 10), Complex)"
    unfolding calculate_table_complexity_eval [OF e] t v n d header_term_def merged_term_def f
    using h
    by (simp add: table_score_def weight_def float64_literals fadd_small
          round_half_even_def Let_def floor_divide_numeral complexity_label_def)
  from score_range_and_label [OF c] c show ?thesis by simp
qed

text \<open>
  Claim C2 asks for a result on every table of strings and nested lists. On the table whose
  only cell is the list \<^verbatim>\<open>['a']\<close> line 16 raises an AttributeError, before the nesting
  signal of line 20 is computed.
\<close>

theorem list_cell_raises:
  "calculate_table_complexity [[CList [CStr ''a'']]] = Inl AttributeError"
  by (simp add: calculate_table_complexity_def empty_cells_def bind_err_def)

subsection \<open>The empty-cell signal\<close>

lemma strip_empty_iff: "(s = [] \<or> py_strip s = []) \<longleftrightarrow> list_all py_isspace s"
proof
  assume "s = [] \<or> py_strip s = []"
  then have "py_strip s = []" by (auto simp: py_strip_def)
  then have a: "\<forall>x\<in>set (dropWhile py_isspace s). py_isspace x"
    by (simp add: py_strip_def dropWhile_eq_Nil_conv)
  have "dropWhile py_isspace s = []"
  proof (rule ccontr)
    assume ne: "dropWhile py_isspace s \<noteq> []"
    then have "\<not> py_isspace (hd (dropWhile py_isspace s))" by (rule hd_dropWhile)
    moreover have "hd (dropWhile py_isspace s) \<in> set (dropWhile py_isspace s)"
      using ne by simp
    ultimately show False using a by blast
  qed
  then show "list_all py_isspace s"
    by (simp add: dropWhile_eq_Nil_conv list_all_iff)
next
  assume "list_all py_isspace s"
  then have "dropWhile py_isspace s = []"
    by (simp add: dropWhile_eq_Nil_conv list_all_iff)
  then show "s = [] \<or> py_strip s = []" unfolding py_strip_def by (simp del: dropWhile_eq_Nil_conv)
qed

lemma is_blank_Inr: "is_blank c = Inr b \<Longrightarrow> b = blank_cell c"
  by (cases c) (auto simp: blank_cell_def strip_empty_iff split: if_splits)

lemma count_blank_Inr: "count_blank cs = Inr n \<Longrightarrow> n = length (filter blank_cell cs)"
proof (induction cs arbitrary: n)
  case Nil
  then show ?case by simp
next
  case (Cons c cs)
  then show ?case
    by (auto simp: bind_err_def split: sum.splits if_splits dest: is_blank_Inr)
qed

lemma num_cols_Max: "num_cols table = Max (set (0 # map length table))"
proof (cases table)
  case Nil
  then show ?thesis by (simp add: num_cols_def)
next
  case (Cons row rows)
  have "Max (set (0 # map length table)) = Max (insert 0 (set (length row # map length rows)))"
    by (simp add: Cons)
  also have "\<dots> = max 0 (Max (set (length row # map length rows)))"
    by (rule Max_insert) simp_all
  also have "\<dots> = fold max (map length rows) (length row)"
    by (simp only: Max.set_eq_fold)
  finally show ?thesis by (simp add: num_cols_def Cons)
qed

lemma blank_ratio_code:
  assumes "empty_cells table = Inr n"
  shows "blank_ratio table =
           (if total_cells table = 0 then 0 else of_nat n / of_nat (total_cells table))"
proof -
  have "n = length (filter blank_cell (concat table))"
    using assms by (simp add: empty_cells_def count_blank_Inr)
  then show ?thesis
    by (simp add: blank_ratio_def total_cells_def num_cols_Max Let_def)
qed

lemma score_decomposition:
  assumes "calculate_table_complexity table = Inr (s, l)"
  shows "s = table_score (merged_term (blank_ratio table)) (variation_term table)
               (nested_term table) (header_term table) (density_term table)"
proof -
  from calculate_table_complexity_Inr [OF assms] obtain n where
    e: "empty_cells table = Inr n" and
    s: "s = table_score
              (merged_term (if total_cells table = 0 then 0
                            else of_nat n / of_nat (total_cells table)))
              (variation_term table) (nested_term table) (header_term table)
              (density_term table)"
    by blast
  show ?thesis unfolding s blank_ratio_code [OF e] ..
qed

text \<open>
  Claim C5. Whenever the classifier returns, the first term of the score is the weight 0.4
  exactly when the ratio of blank cells (empty, or white space only) to the number of rows
  times the greatest row length, taken as 0 when that product is 0, is strictly greater than
  \<open>1/5\<close>, and it is 0 otherwise; a ratio of exactly \<open>1/5\<close> leaves the term at 0.
\<close>

theorem empty_cell_signal_strict:
  assumes "calculate_table_complexity table = Inr (s, l)"
  shows "s = table_score (merged_term (blank_ratio table)) (variation_term table)
               (nested_term table) (header_term table) (density_term table)
       \<and> (merged_term (blank_ratio table) = float64 (4 / 10) \<longleftrightarrow> 1 / 5 < blank_ratio table)
       \<and> (merged_term (blank_ratio table) = 0 \<longleftrightarrow> blank_ratio table \<le> 1 / 5)
       \<and> (blank_ratio table = 1 / 5 \<longrightarrow> merged_term (blank_ratio table) = 0)"
  using score_decomposition [OF assms] weights_nonzero(1)
  by (auto simp: merged_term_def weight_def)

theorem empty_cell_signal_strict_witness:
  "calculate_table_complexity [[CStr ''1'', CStr ''2'', CStr ''3'', CStr ''4'', CStr '' '']]
     = Inr (0, Simple)
   \<and> blank_ratio [[CStr ''1'', CStr ''2'', CStr ''3'', CStr ''4'', CStr '' '']] = 1 / 5
   \<and> merged_term (blank_ratio [[CStr ''1'', CStr ''2'', CStr ''3'', CStr ''4'', CStr '' '']]) = 0"
proof -
  let ?T = "[[CStr ''1'', CStr ''2'', CStr ''3'', CStr ''4'', CStr '' '']]"
  have c: "calculate_table_complexity ?T = Inr (0, Simple)" by code_simp
  have r: "blank_ratio ?T = 1 / 5" by code_simp
  from empty_cell_signal_strict [OF c]
  have "blank_ratio ?T = 1 / 5 \<longrightarrow> merged_term (blank_ratio ?T) = 0" by blast
  with c r show ?thesis by blast
qed

subsection \<open>The repeated-header signal\<close>

lemma set_str_cells: "set (str_cells row) = {s. CStr s \<in> set row}"
  by (induction row rule: str_cells.induct) auto

lemma header_row_iff:
  "header_row row \<longleftrightarrow>
     (\<forall>c\<in>set row. \<forall>str. c = CStr str \<longrightarrow> str \<noteq> [] \<and> (\<forall>ch\<in>set str. isalpha_char ch))"
  by (auto simp: header_row_def list_all_iff set_str_cells py_isalpha_def)

text \<open>
  Claim C4, as the specification states it, counts a row as a header row when every string
  cell that is not empty is alphabetic, so that empty strings do not matter. In the table
  below each of the two rows has four letters and one empty string: both rows are header rows
  in that sense, yet the header term is not 0.3 and the score is 0.
\<close>

theorem header_signal_counterexample:
  "calculate_table_complexity
     [[CStr ''a'', CStr ''b'', CStr ''c'', CStr ''d'', CStr ''''],
      [CStr ''e'', CStr ''f'', CStr ''g'', CStr ''h'', CStr '''']] = Inr (0, Simple)
   \<and> 1 < length (filter spec_header_row (take 3
     [[CStr ''a'', CStr ''b'', CStr ''c'', CStr ''d'', CStr ''''],
      [CStr ''e'', CStr ''f'', CStr ''g'', CStr ''h'', CStr '''']]))
   \<and> header_term
     [[CStr ''a'', CStr ''b'', CStr ''c'', CStr ''d'', CStr ''''],
      [CStr ''e'', CStr ''f'', CStr ''g'', CStr ''h'', CStr '''']] \<noteq> float64 (3 / 10)"
  by code_simp

text \<open>
  Claim C4, amended. Whenever the classifier returns, the fourth term of the score is the
  weight 0.3 exactly when, among the first three rows, strictly more than one row has every
  string cell non-empty and purely alphabetic, and it is 0 otherwise. Cells that are not
  strings are skipped; an empty string keeps its row from counting.
\<close>

theorem header_signal_string_cells:
  assumes "calculate_table_complexity table = Inr (s, l)"
  shows "s = table_score (merged_term (blank_ratio table)) (variation_term table)
               (nested_term table) (header_term table) (density_term table)
       \<and> (header_term table = float64 (3 / 10) \<longleftrightarrow>
            1 < length (filter (\<lambda>row. \<forall>c\<in>set row. \<forall>str. c = CStr str \<longrightarrow>
                                   str \<noteq> [] \<and> (\<forall>ch\<in>set str. isalpha_char ch))
                          (take 3 table)))
       \<and> (header_term table = 0 \<longleftrightarrow>
            length (filter (\<lambda>row. \<forall>c\<in>set row. \<forall>str. c = CStr str \<longrightarrow>
                                   str \<noteq> [] \<and> (\<forall>ch\<in>set str. isalpha_char ch))
                          (take 3 table)) \<le> 1)"
proof -
  have "header_row = (\<lambda>row. \<forall>c\<in>set row. \<forall>str. c = CStr str \<longrightarrow>
                                   str \<noteq> [] \<and> (\<forall>ch\<in>set str. isalpha_char ch))"
    by (rule ext) (rule header_row_iff)
  then have "header_count table = length (filter (\<lambda>row. \<forall>c\<in>set row. \<forall>str. c = CStr str \<longrightarrow>
                                   str \<noteq> [] \<and> (\<forall>ch\<in>set str. isalpha_char ch))
                          (take 3 table))"
    by (simp add: header_count_def)
  then show ?thesis
    using score_decomposition [OF assms] weights_nonzero(2)
    by (auto simp: header_term_def weight_def)
qed

theorem header_signal_string_cells_witness:
  "calculate_table_complexity
     [[CStr ''Name'', CNone], [CStr ''First'', CStr ''Last''], [CStr ''x1'', CStr ''7'']]
     = Inr (float64 (3 / 10), Simple)
   \<and> header_term
     [[CStr ''Name'', CNone], [CStr ''First'', CStr ''Last''], [CStr ''x1'', CStr ''7'']]
     = float64 (3 / 10)"
proof -
  let ?T = "[[CStr ''Name'', CNone], [CStr ''First'', CStr ''Last''], [CStr ''x1'', CStr ''7'']]"
  have e: "empty_cells ?T = Inr 1" by code_simp
  have t: "total_cells ?T = 6" by code_simp
  have v: "variation_term ?T = 0" by code_simp
  have n: "nested_term ?T = 0" by code_simp
  have h: "1 < header_count ?T" by code_simp
  have d: "density_term ?T = 0" by code_simp
  have c: "calculate_table_complexity ?T = Inr (float64 (3 / 10), Simple)"
    unfolding calculate_table_complexity_eval [OF e] t v n d header_term_def merged_term_def
    using h
    by (simp add: table_score_def weight_def float64_literals fadd_zero fadd_small
          round_half_even_def Let_def floor_divide_numeral complexity_label_def)
  have "header_term ?T = float64 (3 / 10)"
    using h by (simp add: header_term_def weight_def)
  with header_signal_string_cells [OF c] c show ?thesis by blast
qed

subsection \<open>The lexical-density signal\<close>

lemma sample_mean_constant:
  assumes "xs \<noteq> []" and "\<forall>x\<in>set xs. x = k"
  shows "sample_mean xs = of_nat k"
proof -
  have xs: "xs = replicate (length xs) k"
    using assms(2) by (simp add: replicate_length_same)
  have "sum_list xs = length xs * k"
    by (subst xs) (simp add: sum_list_replicate)
  then show ?thesis
    using assms(1) by (simp add: sample_mean_def)
qed

lemma percentile_linear_constant:
  assumes "xs \<noteq> []" and "\<forall>x\<in>set xs. x = k" and "q \<le> 100"
  shows "percentile_linear xs q = of_nat k"
proof -
  have "\<forall>x\<in>set (sort xs). x = k" using assms(2) by simp
  moreover have len: "length (sort xs) = length xs" by simp
  ultimately have nth: "\<And>i. i < length xs \<Longrightarrow> sort xs ! i = k"
    by (metis nth_mem)
  have pos: "0 < length xs" using assms(1) by simp
  have "(length xs - 1) * q \<le> (length xs - 1) * 100"
    using assms(3) by (rule mult_le_mono2)
  then have "(length xs - 1) * q div 100 \<le> (length xs - 1) * 100 div 100"
    by (rule div_le_mono)
  then have "(length xs - 1) * q div 100 \<le> length xs - 1"
    by simp
  then have lo: "(length xs - 1) * q div 100 < length xs"
    using pos by linarith
  have hi: "min ((length xs - 1) * q div 100 + 1) (length xs - 1) < length xs"
    using pos by arith
  show ?thesis
    unfolding percentile_linear_def Let_def nth [OF hi] nth [OF lo] by simp
qed

text \<open>
  Claim C8. Whenever the classifier returns, the fifth term of the score is the weight 0.2
  exactly when some cell is truthy and the mean of the word counts of the truthy cells is
  strictly greater than their 75th percentile, and it is 0 otherwise. When all these word
  counts are equal the term is 0. The mean and the percentile are the numbers that
  \<^verbatim>\<open>np.mean\<close> and \<^verbatim>\<open>np.percentile\<close> return on the non-empty sample.
\<close>

theorem density_signal_mean_above_percentile:
  assumes "calculate_table_complexity table = Inr (s, l)"
  shows "s = table_score (merged_term (blank_ratio table)) (variation_term table)
               (nested_term table) (header_term table) (density_term table)
       \<and> (word_counts table \<noteq> [] \<longrightarrow>
            np_mean (word_counts table) = Num (sample_mean (word_counts table))
            \<and> np_percentile (word_counts table) 75
                = Inr (percentile_linear (word_counts table) 75))
       \<and> (density_term table = float64 (2 / 10) \<longleftrightarrow>
            word_counts table \<noteq> []
            \<and> percentile_linear (word_counts table) 75 < sample_mean (word_counts table))
       \<and> (density_term table = 0 \<longleftrightarrow>
            \<not> (word_counts table \<noteq> []
               \<and> percentile_linear (word_counts table) 75 < sample_mean (word_counts table)))
       \<and> ((\<forall>w\<in>set (word_counts table). w = k) \<longrightarrow> density_term table = 0)"
proof -
  have uniform: "density_term table = 0" if "\<forall>w\<in>set (word_counts table). w = k"
  proof (cases "word_counts table = []")
    case True
    then show ?thesis by (simp add: density_term_value weight_def)
  next
    case False
    then show ?thesis
      using sample_mean_constant [OF False that]
        percentile_linear_constant [OF False that, of 75]
      by (simp add: density_term_value weight_def)
  qed
  have np: "word_counts table \<noteq> [] \<longrightarrow>
            np_mean (word_counts table) = Num (sample_mean (word_counts table))
            \<and> np_percentile (word_counts table) 75
                = Inr (percentile_linear (word_counts table) 75)"
    by (simp add: np_mean_def np_percentile_def)
  show ?thesis
    using score_decomposition [OF assms] weights_nonzero(3) uniform np
    by (auto simp: density_term_value weight_def)
qed

theorem density_signal_mean_above_percentile_witness:
  "calculate_table_complexity
     [[CStr ''a1'', CStr ''a2'', CStr ''a3'', CStr ''a4'', CStr ''b1 b2 b3 b4 b5 b6'']]
     = Inr (float64 (2 / 10), Simple)
   \<and> word_counts
     [[CStr ''a1'', CStr ''a2'', CStr ''a3'', CStr ''a4'', CStr ''b1 b2 b3 b4 b5 b6'']]
     = [1, 1, 1, 1, 6]
   \<and> np_mean [1, 1, 1, 1, 6] = Num 2
   \<and> np_percentile [1, 1, 1, 1, 6] 75 = Inr 1
   \<and> density_term
     [[CStr ''a1'', CStr ''a2'', CStr ''a3'', CStr ''a4'', CStr ''b1 b2 b3 b4 b5 b6'']]
     = float64 (2 / 10)
   \<and> word_counts [[CStr ''a1 a2'', CStr ''b1 b2'']] = [2, 2]
   \<and> density_term [[CStr ''a1 a2'', CStr ''b1 b2'']] = 0"
proof -
  let ?T = "[[CStr ''a1'', CStr ''a2'', CStr ''a3'', CStr ''a4'', CStr ''b1 b2 b3 b4 b5 b6'']]"
  let ?U = "[[CStr ''a1 a2'', CStr ''b1 b2'']]"
  have e: "empty_cells ?T = Inr 0" by code_simp
  have t: "total_cells ?T = 5" by code_simp
  have v: "variation_term ?T = 0" by code_simp
  have n: "nested_term ?T = 0" by code_simp
  have h: "header_term ?T = 0" by code_simp
  have w: "word_counts ?T = [1, 1, 1, 1, 6]" by code_simp
  have m: "np_mean [1, 1, 1, 1, 6] = Num 2" by code_simp
  have q: "np_percentile [1, 1, 1, 1, 6] 75 = Inr 1" by code_simp
  have p: "percentile_linear [1, 1, 1, 1, 6] 75 < sample_mean [1, 1, 1, 1, 6]" by code_simp
  have d: "density_term ?T = float64 (2 / 10)"
    using p by (simp add: density_term_value w weight_def)
  have c: "calculate_table_complexity ?T = Inr (float64 (2 / 10), Simple)"
    unfolding calculate_table_complexity_eval [OF e] t v n h d merged_term_def
    by (simp add: table_score_def weight_def float64_literals fadd_zero fadd_small
          round_half_even_def Let_def floor_divide_numeral complexity_label_def)
  have cu: "calculate_table_complexity ?U = Inr (0, Simple)" by code_simp
  have wu: "word_counts ?U = [2, 2]" by code_simp
  have "\<forall>x\<in>set (word_counts ?U). x = 2" unfolding wu by simp
  with density_signal_mean_above_percentile [OF cu, of 2] have "density_term ?U = 0" by blast
  with density_signal_mean_above_percentile [OF c] c w d wu m q show ?thesis by blast
qed

subsection \<open>When the classifier raises\<close>

lemma is_blank_raises_iff: "is_blank c = Inl AttributeError \<longleftrightarrow> nonempty_list c"
  by (cases c rule: nonempty_list.cases) simp_all

lemma count_blank_raises_iff:
  "count_blank cs = Inl AttributeError \<longleftrightarrow> list_ex nonempty_list cs"
proof (induction cs)
  case Nil
  then show ?case by simp
next
  case (Cons c cs)
  show ?case
  proof (cases "is_blank c")
    case (Inl e)
    then have "e = AttributeError" by (rule is_blank_error)
    with Inl show ?thesis
      using is_blank_raises_iff [of c] by (simp add: bind_err_def)
  next
    case (Inr b)
    then have "\<not> nonempty_list c"
      using is_blank_raises_iff [of c] by simp
    with Inr Cons.IH show ?thesis
      by (auto simp: bind_err_def split: sum.splits)
  qed
qed

lemma classifier_raises_iff:
  "(\<exists>e. calculate_table_complexity table = Inl e) \<longleftrightarrow> list_ex nonempty_list (concat table)"
proof
  assume "\<exists>e. calculate_table_complexity table = Inl e"
  then obtain e where "calculate_table_complexity table = Inl e" ..
  then have e: "count_blank (concat table) = Inl e"
    using calculate_table_complexity_Inl by (simp add: empty_cells_def)
  then have "e = AttributeError" by (rule count_blank_error)
  with e show "list_ex nonempty_list (concat table)"
    by (simp add: count_blank_raises_iff)
next
  assume "list_ex nonempty_list (concat table)"
  then have "empty_cells table = Inl AttributeError"
    by (simp add: empty_cells_def count_blank_raises_iff)
  then show "\<exists>e. calculate_table_complexity table = Inl e"
    by (simp add: calculate_table_complexity_def bind_err_def)
qed

lemma text_table_returns: "\<exists>r. calculate_table_complexity (text_table rows) = Inr r"
proof -
  have "\<not> list_ex nonempty_list (concat (text_table rows))"
    by (auto simp: text_table_def list_ex_iff)
  then have "\<not> (\<exists>e. calculate_table_complexity (text_table rows) = Inl e)"
    by (simp only: classifier_raises_iff not_False_eq_True)
  then show ?thesis
    by (cases "calculate_table_complexity (text_table rows)") auto
qed

lemma count_complex_returns:
  assumes "\<forall>t\<in>set ts. \<exists>r. calculate_table_complexity t = Inr r"
  shows "\<exists>n. count_complex ts = Inr n"
  using assms
proof (induction ts)
  case Nil
  then show ?case by simp
next
  case (Cons t ts)
  then obtain r n where "calculate_table_complexity t = Inr r" and "count_complex ts = Inr n"
    by auto
  then show ?case by (simp add: bind_err_def)
qed

lemma shape_tables_text: "t \<in> set (shape_tables slides) \<Longrightarrow> \<exists>rows. t = text_table rows"
  by (auto simp: shape_tables_def map_filter_def)

section \<open>The slide-deck path\<close>

text \<open>
  Claim C7. For every slide deck the analysis returns a report whose dense-paragraph count
  is 0, whatever the number of text frames longer than 500 characters. That number decides
  the column count only: 1 when it is below 5, and 2 otherwise. The final score is the table
  and image scores plus a layout score of 0 or 40, with no term for dense paragraphs.
\<close>

theorem pptx_reports_no_dense_paragraphs:
  "\<exists>n_tables.
     count_tables_pptx (PptxFile slides) = Inr n_tables
   \<and> calculate_document_complexity (PptxFile slides) ''pptx'' =
       Inr (score_features n_tables
              (int (length (filter (\<lambda>sh. shape_type sh = Some 13) (concat slides))))
              (if length (filter dense_shape (concat slides)) < 5 then 1 else 2) 0)
   \<and> dense_paragraphs_found (score_features n_tables
              (int (length (filter (\<lambda>sh. shape_type sh = Some 13) (concat slides))))
              (if length (filter dense_shape (concat slides)) < 5 then 1 else 2) 0) = 0
   \<and> columns_detected (score_features n_tables
              (int (length (filter (\<lambda>sh. shape_type sh = Some 13) (concat slides))))
              (if length (filter dense_shape (concat slides)) < 5 then 1 else 2) 0)
       = (if length (filter dense_shape (concat slides)) < 5 then 1 else 2)
   \<and> final_complexity_score (score_features n_tables
              (int (length (filter (\<lambda>sh. shape_type sh = Some 13) (concat slides))))
              (if length (filter dense_shape (concat slides)) < 5 then 1 else 2) 0)
       = n_tables * 20
         + int (length (filter (\<lambda>sh. shape_type sh = Some 13) (concat slides))) * 10
         + (if length (filter dense_shape (concat slides)) < 5 then 0 else 40)"
proof -
  have "\<forall>t\<in>set (shape_tables slides). \<exists>r. calculate_table_complexity t = Inr r"
    using shape_tables_text text_table_returns by blast
  then obtain n where n: "count_complex (shape_tables slides) = Inr n"
    using count_complex_returns by blast
  then have t: "count_tables_pptx (PptxFile slides) = Inr n"
    by (simp add: count_tables_pptx_def bind_err_def)
  have c: "calculate_document_complexity (PptxFile slides) ''pptx'' =
       Inr (score_features n
              (int (length (filter (\<lambda>sh. shape_type sh = Some 13) (concat slides))))
              (if length (filter dense_shape (concat slides)) < 5 then 1 else 2) 0)"
    by (simp add: calculate_document_complexity_def t count_images_pptx_def
          analyze_layout_complexity_pptx_def bind_err_def Let_def)
  have f: "dense_paragraphs_found (score_features n i c 0) = 0
         \<and> columns_detected (score_features n i c 0) = c" for i c
    by (simp add: score_features_def Let_def)
  have g: "final_complexity_score (score_features n i (if b then 1 else 2) 0)
             = n * 20 + i * 10 + (if b then 0 else 40)" for i b
    by (simp add: score_features_def layout_score_def Let_def)
  from t c f g show ?thesis by blast
qed

theorem pptx_reports_no_dense_paragraphs_witness:
  "calculate_document_complexity
     (PptxFile [replicate 5 \<lparr>shape_table = None,
                              shape_text_frame = Some (replicate 501 (CHR ''x'')),
                              shape_type = Some 13\<rparr>]) ''pptx''
   = Inr \<lparr>complex_tables_found = 0, columns_detected = 2, dense_paragraphs_found = 0,
          images_found = 5, final_complexity_score = 90, complexity_level = Medium\<rparr>"
proof -
  let ?sh = "\<lparr>shape_table = None, shape_text_frame = Some (replicate 501 (CHR ''x'')),
              shape_type = Some 13\<rparr>"
  have d: "dense_shape ?sh" by (simp add: dense_shape_def)
  have n: "count_tables_pptx (PptxFile [replicate 5 ?sh]) = Inr 0"
    by (simp add: count_tables_pptx_def bind_err_def shape_tables_def map_filter_def)
  have l: "length (filter dense_shape (concat [replicate 5 ?sh])) = 5"
    using d by simp
  have i: "length (filter (\<lambda>sh. shape_type sh = Some 13) (concat [replicate 5 ?sh])) = 5"
    by simp
  from pptx_reports_no_dense_paragraphs [of "[replicate 5 ?sh]"]
  show ?thesis
    unfolding l i n by (simp add: score_features_def layout_score_def Let_def)
qed

end
